theory Spec2Isabelle
  imports Complex_Main
begin

section \<open>JavaScript values\<close>

text \<open>
  The admin console is written in JavaScript, so every property of a product, of a form
  event and of a caught error is a dynamically typed value. A number is an IEEE double:
  not-a-number, an infinity, or a finite value, which is a rational (the two zeros are
  identified: they are equal under \<open>===\<close>, neither is below zero and both are falsy).
  A string is the list of its characters; the source's non-ASCII literals are given by
  the bytes of their UTF-8 encoding.
\<close>

datatype jsnum = NaN | PosInf | NegInf | Fin rat

datatype jsval =
    JUndefined
  | JNull
  | JBool bool
  | JNum jsnum
  | JStr string
  | JArr "jsval list"
  | JObj "string \<Rightarrow> jsval option"

text \<open>An object is the map of its own properties; a missing key reads as \<open>undefined\<close>.\<close>

type_synonym jsobj = "string \<Rightarrow> jsval option"

definition field :: "jsobj \<Rightarrow> string \<Rightarrow> jsval" where
  "field ob k = (case ob k of None \<Rightarrow> JUndefined | Some v \<Rightarrow> v)"

text \<open>Truthiness, as tested by \<open>if\<close>, \<open>!\<close>, \<open>? :\<close> and \<open>||\<close>.\<close>

fun truthy :: "jsval \<Rightarrow> bool" where
  "truthy JUndefined = False"
| "truthy JNull = False"
| "truthy (JBool b) = b"
| "truthy (JNum n) = (n \<noteq> NaN \<and> n \<noteq> Fin 0)"
| "truthy (JStr s) = (s \<noteq> [])"
| "truthy (JArr xs) = True"
| "truthy (JObj ob) = True"

text \<open>The relational operator \<open><\<close> on two numbers: false whenever an operand is NaN.\<close>

fun num_lt :: "jsnum \<Rightarrow> jsnum \<Rightarrow> bool" where
  "num_lt NaN y = False"
| "num_lt x NaN = False"
| "num_lt (Fin a) (Fin b) = (a < b)"
| "num_lt NegInf y = (y \<noteq> NegInf)"
| "num_lt x PosInf = (x \<noteq> PosInf)"
| "num_lt x y = False"

text \<open>
  Strict equality \<open>===\<close>. Primitives are compared by type and value, and NaN differs
  from itself. Arrays and objects are compared by identity, which a value does not carry:
  two of them are taken to be distinct objects.
\<close>

fun strict_eq :: "jsval \<Rightarrow> jsval \<Rightarrow> bool" where
  "strict_eq JUndefined JUndefined = True"
| "strict_eq JNull JNull = True"
| "strict_eq (JBool a) (JBool b) = (a = b)"
| "strict_eq (JNum a) (JNum b) = (a \<noteq> NaN \<and> a = b)"
| "strict_eq (JStr a) (JStr b) = (a = b)"
| "strict_eq x y = False"

text \<open>
  The runtime's \<open>TypeError\<close>, thrown when a property of \<open>undefined\<close> or \<open>null\<close> is
  read or when a value that is not a function is called. Its message text is the
  engine's.
\<close>

definition type_error :: "string \<Rightarrow> jsobj" where
  "type_error msg = [''name'' \<mapsto> JStr ''TypeError'', ''message'' \<mapsto> JStr msg]"

text \<open>
  Property access. \<open>opt_member v k\<close> is \<open>v?.k\<close> and \<open>member v k\<close> is \<open>v.k\<close>, for a key
  \<open>k\<close> that no built-in prototype defines (\<open>response\<close>, \<open>data\<close>, \<open>message\<close>, \<open>is_enabled\<close>):
  on a primitive or an array such a key reads as \<open>undefined\<close>.
\<close>

fun opt_member :: "jsval \<Rightarrow> string \<Rightarrow> jsval" where
  "opt_member (JObj ob) k = field ob k"
| "opt_member v k = JUndefined"

definition nullish :: "jsval \<Rightarrow> bool" where
  "nullish v = (v = JUndefined \<or> v = JNull)"

definition cannot_read :: "string \<Rightarrow> string \<Rightarrow> jsobj" where
  "cannot_read what k =
     type_error (''Cannot read properties of '' @ what @ '' (reading '' @ [CHR 0x27] @ k @ [CHR 0x27] @ '')'')"

definition member :: "jsval \<Rightarrow> string \<Rightarrow> jsobj + jsval" where
  "member v k =
     (if v = JUndefined then Inl (cannot_read ''undefined'' k)
      else if v = JNull then Inl (cannot_read ''null'' k)
      else Inr (opt_member v k))"

section \<open>utils/error.js\<close>

definition unknown_error :: string where
  "unknown_error =
     [CHR 0xE7, CHR 0x99, CHR 0xBC, CHR 0xE7, CHR 0x94, CHR 0x9F, CHR 0xE6, CHR 0x9C, CHR 0xAA,
      CHR 0xE7, CHR 0x9F, CHR 0xA5, CHR 0xE9, CHR 0x8C, CHR 0xAF, CHR 0xE8, CHR 0xAA, CHR 0xA4]"

text \<open>
  \<^verbatim>\<open>error?.response?.data?.message || error.message || <unknown error>\<close>:
  the first operand never throws; the second reads a property of \<open>error\<close> itself and
  throws when \<open>error\<close> is \<open>undefined\<close> or \<open>null\<close>.
\<close>

definition getErrorMessage :: "jsval \<Rightarrow> jsobj + jsval" where
  "getErrorMessage error =
     (let body = opt_member (opt_member (opt_member error ''response'') ''data'') ''message''
      in if truthy body then Inr body
         else (case member error ''message'' of
                 Inl thrown \<Rightarrow> Inl thrown
               | Inr msg \<Rightarrow> if truthy msg then Inr msg else Inr (JStr unknown_error)))"

section \<open>App.jsx: state, effects and the backend as an input\<close>

text \<open>
  A template literal is kept as its pieces: \<open>Lit\<close> is literal text and \<open>Sub v\<close> is the
  text of the interpolated value \<open>v\<close>.
\<close>

datatype part = Lit string | Sub jsval

type_synonym template = "part list"

datatype api = AuthApi | AdminApi

datatype verb = GET | POST | PUT | DELETE

text \<open>
  What a handler does to the outside world, in order: \<open>alert\<close>, \<open>console.error\<close>, and a
  request with its client, method, path, body and \<open>Authorization\<close> header.
\<close>

datatype effect =
    Alert template
  | ConsoleError "jsval list"
  | Request api verb template jsval jsval

text \<open>
  An awaited request is fulfilled with the part of the response body the handler reads,
  or rejected; axios rejects with an error object. An \<open>async\<close> handler itself returns or
  throws.
\<close>

datatype 'a outcome = Fulfilled 'a | Rejected jsobj

datatype completion = Returned | Thrown jsobj

text \<open>
  The component's state hooks, the visibility of the Bootstrap modal behind
  \<open>modalInstanceRef\<close>, and the cookie written by the token helpers.
\<close>

record app =
  isAuth :: bool
  isCheckingAuth :: bool
  products :: "jsobj list"
  templateProduct :: jsobj
  tempImageInput :: string
  modeType :: string
  isLoading :: bool
  modalShown :: bool
  credential :: "(jsval \<times> jsval) option"

definition initialProduct :: jsobj where
  "initialProduct =
     [''id'' \<mapsto> JStr '''',
      ''title'' \<mapsto> JStr '''',
      ''category'' \<mapsto> JStr '''',
      ''origin_price'' \<mapsto> JNum (Fin 0),
      ''price'' \<mapsto> JNum (Fin 0),
      ''unit'' \<mapsto> JStr '''',
      ''description'' \<mapsto> JStr '''',
      ''content'' \<mapsto> JStr '''',
      ''is_enabled'' \<mapsto> JNum (Fin 0),
      ''imageUrl'' \<mapsto> JStr '''',
      ''imagesUrl'' \<mapsto> JArr []]"

text \<open>
  Modelled from the spec: the token helpers \<open>getToken\<close> and \<open>setToken\<close> of \<open>utils\<close>,
  whose file is not among the sources. The spec's token store keeps one credential, a
  token with its expiry, readable until it is cleared or has expired (\<open>None\<close>).
\<close>

definition getToken :: "app \<Rightarrow> jsval" where
  "getToken s = (case credential s of None \<Rightarrow> JUndefined | Some (token, expired) \<Rightarrow> token)"

definition setToken :: "jsval \<Rightarrow> jsval \<Rightarrow> app \<Rightarrow> app" where
  "setToken token expired s = s\<lparr>credential := Some (token, expired)\<rparr>"

text \<open>The request interceptor of \<open>adminApi\<close> attaches the stored token when there is one.\<close>

definition adminRequest :: "verb \<Rightarrow> template \<Rightarrow> jsval \<Rightarrow> app \<Rightarrow> effect" where
  "adminRequest v url body s =
     Request AdminApi v url body (if truthy (getToken s) then getToken s else JUndefined)"

definition api_error :: string where
  "api_error = ''API '' @ [CHR 0xE9, CHR 0x8C, CHR 0xAF, CHR 0xE8, CHR 0xAA, CHR 0xA4] @ '':''"

subsection \<open>getProducts\<close>

definition getProducts :: "jsobj list outcome \<Rightarrow> app \<Rightarrow> app \<times> effect list \<times> completion" where
  "getProducts res s =
     (let req = adminRequest GET [Lit ''products''] JUndefined s in
      case res of
        Fulfilled ps \<Rightarrow> (s\<lparr>products := ps\<rparr>, [req], Returned)
      | Rejected error \<Rightarrow>
          (case getErrorMessage (JObj error) of
             Inl thrown \<Rightarrow> (s, [req], Thrown thrown)
           | Inr msg \<Rightarrow> (s, [req, ConsoleError [JStr api_error, msg]], Returned)))"

subsection \<open>updateProductStatus\<close>

definition status_catch ::
  "jsobj \<Rightarrow> app \<Rightarrow> effect list \<Rightarrow> app \<times> effect list \<times> completion" where
  "status_catch error s fx =
     (case getErrorMessage (JObj error) of
        Inl thrown \<Rightarrow> (s, fx, Thrown thrown)
      | Inr msg \<Rightarrow> (s, fx @ [ConsoleError [JStr api_error, msg]], Returned))"

text \<open>
  \<open>products.find\<close> yields \<open>undefined\<close> when no product has the id. Spreading
  \<open>undefined\<close> into the object literal is allowed; reading \<open>target.is_enabled\<close> then throws
  inside the \<open>try\<close>. \<open>toggled target\<close> is the new flag,
  \<^verbatim>\<open>target.is_enabled === 1 ? 0 : 1\<close>. The state updater runs on the list the handler
  has read.
\<close>

definition toggled :: "jsobj \<Rightarrow> jsval" where
  "toggled target =
     (if strict_eq (field target ''is_enabled'') (JNum (Fin 1)) then JNum (Fin 0) else JNum (Fin 1))"

definition updateProductStatus ::
  "jsval \<Rightarrow> jsval outcome \<Rightarrow> app \<Rightarrow> app \<times> effect list \<times> completion" where
  "updateProductStatus ident res s =
     (case find (\<lambda>product. strict_eq (field product ''id'') ident) (products s) of
        None \<Rightarrow> status_catch (cannot_read ''undefined'' ''is_enabled'') s []
      | Some target \<Rightarrow>
          (let data = target(''is_enabled'' \<mapsto> toggled target);
               req = adminRequest PUT [Lit ''product/'', Sub ident] (JObj [''data'' \<mapsto> JObj data]) s
           in case res of
                Rejected error \<Rightarrow> status_catch error s [req]
              | Fulfilled message \<Rightarrow>
                  (s\<lparr>products :=
                       map (\<lambda>item. if strict_eq (field item ''id'') ident
                                    then item(''is_enabled'' \<mapsto> field data ''is_enabled'') else item)
                         (products s)\<rparr>,
                   [req, Alert [Sub message]], Returned)))"

subsection \<open>handleLogin\<close>

definition login_catch ::
  "jsobj \<Rightarrow> app \<Rightarrow> effect list \<Rightarrow> app \<times> effect list \<times> completion" where
  "login_catch error s fx =
     (case getErrorMessage (JObj error) of
        Inl thrown \<Rightarrow> (s, fx, Thrown thrown)
      | Inr msg \<Rightarrow> (s, fx @ [Alert [Sub msg, Lit ''!'']], Thrown error))"

definition handleLogin ::
  "jsval \<Rightarrow> (jsval \<times> jsval) outcome \<Rightarrow> jsobj list outcome \<Rightarrow> app
     \<Rightarrow> app \<times> effect list \<times> completion" where
  "handleLogin account res products_res s =
     (let s0 = s\<lparr>isLoading := True\<rparr>;
          req = Request AuthApi POST [Lit ''admin/signin''] account JUndefined;
          (s1, fx, c) =
            (case res of
               Rejected error \<Rightarrow> login_catch error s0 [req]
             | Fulfilled (token, expired) \<Rightarrow>
                 (case getProducts products_res (setToken token expired s0) of
                    (s2, fx2, Thrown error) \<Rightarrow> login_catch error s2 (req # fx2)
                  | (s2, fx2, Returned) \<Rightarrow> (s2\<lparr>isAuth := True\<rparr>, req # fx2, Returned)))
      in (s1\<lparr>isLoading := False\<rparr>, fx, c))"

subsection \<open>checkAdmin\<close>

definition verify_failed :: string where
  "verify_failed =
     [CHR 0xE8, CHR 0xAB, CHR 0x8B, CHR 0xE9, CHR 0x87, CHR 0x8D, CHR 0xE6, CHR 0x96, CHR 0xB0,
      CHR 0xE7, CHR 0x99, CHR 0xBB, CHR 0xE5, CHR 0x85, CHR 0xA5, CHR 0xEF, CHR 0xBC, CHR 0x81]
     @ ''Token '' @
     [CHR 0xE9, CHR 0xA9, CHR 0x97, CHR 0xE8, CHR 0xAD, CHR 0x89, CHR 0xE5, CHR 0xA4, CHR 0xB1,
      CHR 0xE6, CHR 0x95, CHR 0x97, CHR 0xEF, CHR 0xBC, CHR 0x9A]"

definition check_catch ::
  "jsobj \<Rightarrow> app \<Rightarrow> effect list \<Rightarrow> app \<times> effect list \<times> completion" where
  "check_catch error s fx =
     (case getErrorMessage (JObj error) of
        Inl thrown \<Rightarrow> (s, fx, Thrown thrown)
      | Inr msg \<Rightarrow> (s\<lparr>isAuth := False\<rparr>, fx @ [Alert [Lit verify_failed, Sub msg]], Returned))"

definition checkAdmin ::
  "jsval outcome \<Rightarrow> jsobj list outcome \<Rightarrow> app \<Rightarrow> app \<times> effect list \<times> completion" where
  "checkAdmin res products_res s =
     (let s0 = s\<lparr>isLoading := True, isCheckingAuth := True\<rparr>;
          token = getToken s0;
          (s1, fx, c) =
            (if \<not> truthy token then (s0\<lparr>isAuth := False\<rparr>, [], Returned)
             else
               (let req = Request AuthApi POST [Lit ''api/user/check''] JNull token in
                case res of
                  Rejected error \<Rightarrow> check_catch error s0 [req]
                | Fulfilled success \<Rightarrow>
                    if truthy success then
                      (case getProducts products_res s0 of
                         (s2, fx2, Thrown error) \<Rightarrow> check_catch error s2 (req # fx2)
                       | (s2, fx2, Returned) \<Rightarrow> (s2\<lparr>isAuth := True\<rparr>, req # fx2, Returned))
                    else (s0\<lparr>isAuth := False\<rparr>, [req], Returned)))
      in (s1\<lparr>isLoading := False, isCheckingAuth := False\<rparr>, fx, c))"

subsection \<open>handleModalInputChange\<close>

text \<open>
  The fields of \<open>e.target\<close> the handler destructures. The built-in conversion \<open>Number\<close>
  is a parameter of the handlers that call it: what is proved holds for every conversion.
\<close>

record event =
  target_name :: string
  target_value :: string
  target_checked :: bool
  target_type :: string

definition handleModalInputChange :: "(jsval \<Rightarrow> jsnum) \<Rightarrow> event \<Rightarrow> app \<Rightarrow> app" where
  "handleModalInputChange Number e s =
     (let newValue =
            (if target_type e = ''checkbox'' then JBool (target_checked e)
             else if target_type e = ''number'' then
               (let numValue = Number (JStr (target_value e)) in
                if target_value e = '''' then JStr ''''
                else if num_lt numValue (Fin 0) then JNum (Fin 0)
                else JStr (target_value e))
             else JStr (target_value e))
      in s\<lparr>templateProduct := (templateProduct s)(target_name e \<mapsto> newValue)\<rparr>)"

subsection \<open>handleAddImage and handleRemoveImage\<close>

text \<open>
  \<open>v || []\<close> for the \<open>imagesUrl\<close> property: the array itself, or the empty array when the
  property is missing or falsy. A product whose \<open>imagesUrl\<close> is a truthy value that is
  not an array is no product of the data model, and the image handlers are not modelled
  on it: \<open>None\<close>.
\<close>

fun or_empty :: "jsval \<Rightarrow> jsval list option" where
  "or_empty (JArr xs) = Some xs"
| "or_empty v = (if truthy v then None else Some [])"

definition max_images :: string where
  "max_images =
     [CHR 0xE6, CHR 0x9C, CHR 0x80, CHR 0xE5, CHR 0xA4, CHR 0x9A, CHR 0xE5, CHR 0x8F, CHR 0xAA,
      CHR 0xE8, CHR 0x83, CHR 0xBD, CHR 0xE4, CHR 0xB8, CHR 0x8A, CHR 0xE5, CHR 0x82, CHR 0xB3]
     @ '' 4 '' @
     [CHR 0xE5, CHR 0xBC, CHR 0xB5, CHR 0xE5, CHR 0x9C, CHR 0x96, CHR 0xE7, CHR 0x89, CHR 0x87]"

definition handleAddImage :: "app \<Rightarrow> (app \<times> effect list) option" where
  "handleAddImage s =
     (if tempImageInput s = '''' then Some (s, [])
      else
        (let currentMain = field (templateProduct s) ''imageUrl'' in
         case or_empty (field (templateProduct s) ''imagesUrl'') of
           None \<Rightarrow> None
         | Some currentSubs \<Rightarrow>
             (let totalImages = (if truthy currentMain then 1 else 0) + length currentSubs in
              if totalImages \<ge> 4 then Some (s, [Alert [Lit max_images]])
              else
                (let prev = templateProduct s in
                 Some (s\<lparr>templateProduct :=
                            (if \<not> truthy (field prev ''imageUrl'')
                             then prev(''imageUrl'' \<mapsto> JStr (tempImageInput s))
                             else prev(''imagesUrl'' \<mapsto> JArr (currentSubs @ [JStr (tempImageInput s)]))),
                          tempImageInput := ''''\<rparr>, [])))))"

text \<open>
  The index is the position of the clicked image in the rendered sequence. \<open>shift\<close>
  takes the first element off; \<open>splice (index - 1, 1)\<close> removes one element at that
  position and nothing when the position is past the end.
\<close>

definition handleRemoveImage :: "nat \<Rightarrow> app \<Rightarrow> app option" where
  "handleRemoveImage index s =
     (case or_empty (field (templateProduct s) ''imagesUrl'') of
        None \<Rightarrow> None
      | Some currentSubs \<Rightarrow>
          (let prev = templateProduct s in
           if index = 0 then
             (case currentSubs of
                [] \<Rightarrow>
                  Some (s\<lparr>templateProduct := prev(''imageUrl'' \<mapsto> JStr '''', ''imagesUrl'' \<mapsto> JArr [])\<rparr>)
              | newMain # rest \<Rightarrow>
                  Some (s\<lparr>templateProduct := prev(''imageUrl'' \<mapsto> newMain, ''imagesUrl'' \<mapsto> JArr rest)\<rparr>))
           else
             Some (s\<lparr>templateProduct :=
                        prev(''imagesUrl'' \<mapsto> JArr (take (index - 1) currentSubs @ drop index currentSubs))\<rparr>)))"

subsection \<open>openModal and closeModal\<close>

text \<open>
  The second parameter defaults to \<open>initialProduct\<close> when the caller leaves it out
  (\<open>None\<close>); the object spread lets the keys of the product override the template's.
  The modal instance is created when the component mounts, so \<open>show\<close> and \<open>hide\<close> have
  an instance to act on.
\<close>

definition openModal :: "string \<Rightarrow> jsobj option \<Rightarrow> app \<Rightarrow> app" where
  "openModal type product s =
     s\<lparr>modeType := type,
       templateProduct := initialProduct ++ (case product of None \<Rightarrow> initialProduct | Some p \<Rightarrow> p),
       modalShown := True\<rparr>"

definition closeModal :: "app \<Rightarrow> app" where
  "closeModal s = s\<lparr>modalShown := False\<rparr>"

subsection \<open>updateProduct\<close>

text \<open>
  The record sent on submit. It is built before the \<open>try\<close>: calling \<open>filter\<close> on an
  \<open>imagesUrl\<close> that is not an array throws out of the handler.
\<close>

definition productData :: "(jsval \<Rightarrow> jsnum) \<Rightarrow> jsobj \<Rightarrow> jsobj + jsobj" where
  "productData Number t =
     (case field t ''imagesUrl'' of
        JArr urls \<Rightarrow>
          Inr (t(''origin_price'' \<mapsto> JNum (Number (field t ''origin_price'')),
                 ''price'' \<mapsto> JNum (Number (field t ''price'')),
                 ''is_enabled'' \<mapsto> JNum (if truthy (field t ''is_enabled'') then Fin 1 else Fin 0),
                 ''imagesUrl'' \<mapsto> JArr (filter (\<lambda>url. \<not> strict_eq url (JStr '''')) urls)))
      | JUndefined \<Rightarrow> Inl (cannot_read ''undefined'' ''filter'')
      | JNull \<Rightarrow> Inl (cannot_read ''null'' ''filter'')
      | _ \<Rightarrow> Inl (type_error ''templateProduct.imagesUrl.filter is not a function''))"

definition product_added :: string where
  "product_added =
     [CHR 0xE5, CHR 0xB7, CHR 0xB2, CHR 0xE6, CHR 0x96, CHR 0xB0, CHR 0xE5, CHR 0xA2, CHR 0x9E,
      CHR 0xE7, CHR 0x94, CHR 0xA2, CHR 0xE5, CHR 0x93, CHR 0x81, CHR 0xEF, CHR 0xBC, CHR 0x81]"

definition add_failed :: string where
  "add_failed =
     [CHR 0xE6, CHR 0x96, CHR 0xB0, CHR 0xE5, CHR 0xA2, CHR 0x9E, CHR 0xE5, CHR 0xA4, CHR 0xB1,
      CHR 0xE6, CHR 0x95, CHR 0x97, CHR 0xEF, CHR 0xBC, CHR 0x9A]"

definition update_failed :: string where
  "update_failed =
     [CHR 0xE6, CHR 0x9B, CHR 0xB4, CHR 0xE6, CHR 0x96, CHR 0xB0, CHR 0xE5, CHR 0xA4, CHR 0xB1,
      CHR 0xE6, CHR 0x95, CHR 0x97, CHR 0xEF, CHR 0xBC, CHR 0x9A]"

definition update_catch ::
  "jsobj \<Rightarrow> app \<Rightarrow> effect list \<Rightarrow> app \<times> effect list \<times> completion" where
  "update_catch error s fx =
     (case getErrorMessage (JObj error) of
        Inl thrown \<Rightarrow> (s, fx, Thrown thrown)
      | Inr msg \<Rightarrow>
          (s, fx @ [Alert [Lit (if modeType s = ''add'' then add_failed else update_failed),
                           Sub msg, Lit ''!'']], Returned))"

definition updateProduct ::
  "(jsval \<Rightarrow> jsnum) \<Rightarrow> jsval outcome \<Rightarrow> jsobj list outcome \<Rightarrow> app
     \<Rightarrow> app \<times> effect list \<times> completion" where
  "updateProduct Number res products_res s =
     (case productData Number (templateProduct s) of
        Inl thrown \<Rightarrow> (s, [], Thrown thrown)
      | Inr d \<Rightarrow>
          (let body = JObj [''data'' \<mapsto> JObj d];
               req = (if modeType s = ''add''
                      then adminRequest POST [Lit ''product''] body s
                      else adminRequest PUT
                             [Lit ''product/'', Sub (field (templateProduct s) ''id'')] body s)
           in case res of
                Rejected error \<Rightarrow> update_catch error s [req]
              | Fulfilled message \<Rightarrow>
                  (let notice = (if modeType s = ''add'' then Alert [Lit product_added]
                               else Alert [Sub message])
                   in case getProducts products_res s of
                        (s2, fx2, Thrown error) \<Rightarrow> update_catch error s2 (req # notice # fx2)
                      | (s2, fx2, Returned) \<Rightarrow> (closeModal s2, req # notice # fx2, Returned))))"

subsection \<open>An instance of the conversion\<close>

text \<open>
  \<open>Number\<close> on the values it maps without rounding: \<open>undefined\<close>, \<open>null\<close>, booleans,
  numbers, the empty string, and strings that are a decimal integer literal with an
  optional sign. On every other string, and on arrays and objects, this instance answers
  NaN and makes no statement about the built-in; it serves to run the handlers on inputs
  of the first kind.
\<close>

definition digit_of :: "char \<Rightarrow> nat option" where
  "digit_of c =
     map_of [(CHR ''0'', 0), (CHR ''1'', 1), (CHR ''2'', 2), (CHR ''3'', 3), (CHR ''4'', 4),
             (CHR ''5'', 5), (CHR ''6'', 6), (CHR ''7'', 7), (CHR ''8'', 8), (CHR ''9'', 9)] c"

fun digits_value :: "nat \<Rightarrow> string \<Rightarrow> nat option" where
  "digits_value acc [] = Some acc"
| "digits_value acc (c # cs) =
     (case digit_of c of None \<Rightarrow> None | Some d \<Rightarrow> digits_value (10 * acc + d) cs)"

definition unsigned_literal :: "string \<Rightarrow> nat option" where
  "unsigned_literal ds = (if ds = [] then None else digits_value 0 ds)"

definition integer_literal :: "string \<Rightarrow> jsnum" where
  "integer_literal str =
     (case str of
        [] \<Rightarrow> Fin 0
      | c # cs \<Rightarrow>
          if c = CHR ''-'' then
            (case unsigned_literal cs of None \<Rightarrow> NaN | Some n \<Rightarrow> Fin (- of_nat n))
          else if c = CHR ''+'' then
            (case unsigned_literal cs of None \<Rightarrow> NaN | Some n \<Rightarrow> Fin (of_nat n))
          else
            (case unsigned_literal str of None \<Rightarrow> NaN | Some n \<Rightarrow> Fin (of_nat n)))"

fun Number_literal :: "jsval \<Rightarrow> jsnum" where
  "Number_literal JUndefined = NaN"
| "Number_literal JNull = Fin 0"
| "Number_literal (JBool b) = (if b then Fin 1 else Fin 0)"
| "Number_literal (JNum n) = n"
| "Number_literal (JStr str) = integer_literal str"
| "Number_literal (JArr xs) = NaN"
| "Number_literal (JObj ob) = NaN"

subsection \<open>The state at mount and runs of the image handlers\<close>

text \<open>The initial values of the state hooks; no cookie is stored.\<close>

definition blank_app :: app where
  "blank_app =
     \<lparr>isAuth = False, isCheckingAuth = True, products = [], templateProduct = initialProduct,
      tempImageInput = '''', modeType = '''', isLoading = False, modalShown = False,
      credential = None\<rparr>"

text \<open>
  One use of the image form: the URL field's \<open>onChange\<close> stores the typed text in
  \<open>tempImageInput\<close>, then the button's \<open>onClick\<close> runs \<open>handleAddImage\<close>. \<open>addImages\<close>
  is a sequence of such uses.
\<close>

definition addImage :: "string \<Rightarrow> app \<Rightarrow> (app \<times> effect list) option" where
  "addImage url s = handleAddImage (s\<lparr>tempImageInput := url\<rparr>)"

fun addImages :: "string list \<Rightarrow> app \<Rightarrow> app option" where
  "addImages [] s = Some s"
| "addImages (url # urls) s =
     (case addImage url s of None \<Rightarrow> None | Some (s', fx) \<Rightarrow> addImages urls s')"

text \<open>
  The draft's primary image, its secondaries, and the image invariant of the data model:
  the secondaries are a sequence and primary plus secondaries are at most four.
\<close>

definition primary :: "app \<Rightarrow> jsval" where
  "primary s = field (templateProduct s) ''imageUrl''"

definition secondaries :: "app \<Rightarrow> jsval list option" where
  "secondaries s = or_empty (field (templateProduct s) ''imagesUrl'')"

definition image_count :: "app \<Rightarrow> nat" where
  "image_count s =
     (if truthy (primary s) then 1 else 0)
     + (case secondaries s of None \<Rightarrow> 0 | Some subs \<Rightarrow> length subs)"

definition image_inv :: "app \<Rightarrow> bool" where
  "image_inv s = (secondaries s \<noteq> None \<and> image_count s \<le> 4)"

text \<open>What \<open>getErrorMessage\<close> returns on an error object, written out.\<close>

definition formatted :: "jsobj \<Rightarrow> jsval" where
  "formatted e =
     (let body = opt_member (opt_member (field e ''response'') ''data'') ''message'' in
      if truthy body then body
      else if truthy (field e ''message'') then field e ''message''
      else JStr unknown_error)"

subsection \<open>Example states\<close>

text \<open>A draft under edit with a primary image and three secondaries, one of them empty.\<close>

definition edited_app :: app where
  "edited_app =
     blank_app\<lparr>modeType := ''edit'',
       templateProduct :=
         initialProduct(''id'' \<mapsto> JStr ''p1'', ''price'' \<mapsto> JStr ''12'',
           ''is_enabled'' \<mapsto> JBool True, ''imageUrl'' \<mapsto> JStr ''m'',
           ''imagesUrl'' \<mapsto> JArr [JStr ''a'', JStr '''', JStr ''c''])\<rparr>"

text \<open>A signed-in console that lists two products.\<close>

definition listed_app :: app where
  "listed_app =
     blank_app\<lparr>isAuth := True, isCheckingAuth := False,
       products :=
         [[''id'' \<mapsto> JStr ''p1'', ''title'' \<mapsto> JStr ''tea'', ''is_enabled'' \<mapsto> JNum (Fin 1)],
          [''id'' \<mapsto> JStr ''p2'', ''title'' \<mapsto> JStr ''cup'', ''is_enabled'' \<mapsto> JNum (Fin 0)]],
       credential := Some (JStr ''tok'', JNum (Fin 1700000000000))\<rparr>"

text \<open>The state at mount of a console whose cookie still holds a token.\<close>

definition returning_app :: app where
  "returning_app = blank_app\<lparr>credential := Some (JStr ''tok'', JNum (Fin 1700000000000))\<rparr>"

text \<open>The id \<open>ident\<close> is present in the list and \<open>p\<close> is the product it identifies.\<close>

definition identifies :: "jsval \<Rightarrow> jsobj \<Rightarrow> app \<Rightarrow> bool" where
  "identifies ident p s =
     (p \<in> set (products s) \<and> strict_eq (field p ''id'') ident
      \<and> (\<forall>q \<in> set (products s). strict_eq (field q ''id'') ident \<longrightarrow> q = p))"

section \<open>The error formatter\<close>

lemma getErrorMessage_object: "getErrorMessage (JObj e) = Inr (formatted e)"
  by (simp add: getErrorMessage_def member_def formatted_def Let_def)

text \<open>
  Claim C8. The formatter is called with the value a \<open>catch\<close> block caught: an axios
  error or a runtime error, never \<open>undefined\<close> or \<open>null\<close>. For every such value it
  returns, and what it returns is chosen in this order: the message of the response body
  when there is one (a truthy \<open>error.response.data.message\<close>), otherwise the error's own
  message when there is one (a truthy \<open>error.message\<close>), otherwise the fallback text.
\<close>

theorem getErrorMessage_order:
  "\<not> nullish error \<Longrightarrow>
   getErrorMessage error =
     Inr (let body = opt_member (opt_member (opt_member error ''response'') ''data'') ''message'';
              msg = opt_member error ''message''
          in if truthy body then body
             else if truthy msg then msg
             else JStr unknown_error)"
  by (simp add: getErrorMessage_def member_def nullish_def Let_def)

text \<open>
  Claim C8 on three error objects: one with a response body message and a transport
  message (the body's message wins), one with a transport message only, and one with
  neither.
\<close>

theorem getErrorMessage_order_witness:
  "\<not> nullish (JObj [''message'' \<mapsto> JStr ''Request failed'',
                     ''response'' \<mapsto> JObj [''data'' \<mapsto> JObj [''message'' \<mapsto> JStr ''Bad token'']]])
   \<and> getErrorMessage
         (JObj [''message'' \<mapsto> JStr ''Request failed'',
                ''response'' \<mapsto> JObj [''data'' \<mapsto> JObj [''message'' \<mapsto> JStr ''Bad token'']]])
       = Inr (JStr ''Bad token'')
   \<and> getErrorMessage (JObj [''message'' \<mapsto> JStr ''Network Error'']) = Inr (JStr ''Network Error'')
   \<and> getErrorMessage (JObj Map.empty) = Inr (JStr unknown_error)"
proof -
  have n: "\<not> nullish (JObj ob)" for ob
    by (simp add: nullish_def)
  show ?thesis
    using getErrorMessage_order
        [OF n [of "[''message'' \<mapsto> JStr ''Request failed'',
                    ''response'' \<mapsto> JObj [''data'' \<mapsto> JObj [''message'' \<mapsto> JStr ''Bad token'']]]"]]
      getErrorMessage_order [OF n [of "[''message'' \<mapsto> JStr ''Network Error'']"]]
      getErrorMessage_order [OF n [of Map.empty]]
    by (simp add: n field_def)
qed

text \<open>
  The hypothesis is the edge of the formatter's domain: on \<open>undefined\<close> and \<open>null\<close> the
  first operand, guarded by \<open>error?.\<close>, yields \<open>undefined\<close>, and the read of
  \<open>error.message\<close> in the second operand throws. No call site passes such a value.
\<close>

lemma getErrorMessage_nullish_throws:
  "getErrorMessage JUndefined = Inl (cannot_read ''undefined'' ''message'')
   \<and> getErrorMessage JNull = Inl (cannot_read ''null'' ''message'')"
  by (simp add: getErrorMessage_def member_def)

section \<open>Helper facts\<close>

lemma strict_eq_JStr: "strict_eq u (JStr str) = (u = JStr str)"
  by (cases u) auto

lemma map_add_same: "m ++ m = m"
  by (rule ext) (simp add: map_add_def split: option.splits)

lemma field_merged:
  "field (initialProduct ++ p) k = (case p k of None \<Rightarrow> field initialProduct k | Some v \<Rightarrow> v)"
  by (simp add: field_def map_add_def split: option.splits)

lemma field_upd_same [simp]: "field (t(k \<mapsto> v)) k = v"
  by (simp add: field_def)

lemma field_upd_other: "k' \<noteq> k \<Longrightarrow> field (t(k \<mapsto> v)) k' = field t k'"
  by (simp add: field_def)

lemma primary_upd [simp]: "primary (s\<lparr>templateProduct := t\<rparr>) = field t ''imageUrl''"
  by (simp add: primary_def)

lemma secondaries_upd [simp]:
  "secondaries (s\<lparr>templateProduct := t\<rparr>) = or_empty (field t ''imagesUrl'')"
  by (simp add: secondaries_def)

lemma formatted_cannot_read:
  "formatted (cannot_read what k) =
     JStr (''Cannot read properties of '' @ what @ '' (reading '' @ [CHR 0x27] @ k @ [CHR 0x27] @ '')'')"
  by (simp add: formatted_def cannot_read_def type_error_def field_def)

lemma integer_literal_minus_5: "integer_literal ''-5'' = Fin (- 5)"
  by (simp add: integer_literal_def unsigned_literal_def digit_of_def)

lemma integer_literal_12: "integer_literal ''12'' = Fin 12"
  by (simp add: integer_literal_def unsigned_literal_def digit_of_def)

section \<open>The form input normalizer\<close>

text \<open>
  Claim C4, as amended. For every change event of a numeric field, the value stored under
  the field's name is the empty string when the input is the empty string, the number
  \<open>0\<close> (not the string \<open>"0"\<close>) when the input converts to a number below zero, and the
  raw input string in every other case.
\<close>

theorem handleModalInputChange_number:
  "target_type e = ''number'' \<Longrightarrow>
   field (templateProduct (handleModalInputChange Number e s)) (target_name e) =
     (if target_value e = '''' then JStr ''''
      else if num_lt (Number (JStr (target_value e))) (Fin 0) then JNum (Fin 0)
      else JStr (target_value e))"
  by (simp add: handleModalInputChange_def field_def Let_def)

text \<open>Claim C4, as amended, at the input \<open>"12"\<close> of the field \<open>price\<close>: the string is kept.\<close>

theorem handleModalInputChange_number_witness:
  "target_type \<lparr>target_name = ''price'', target_value = ''12'', target_checked = False,
                target_type = ''number''\<rparr> = ''number''
   \<and> field (templateProduct (handleModalInputChange Number_literal
         \<lparr>target_name = ''price'', target_value = ''12'', target_checked = False,
          target_type = ''number''\<rparr> blank_app)) ''price'' = JStr ''12''"
  using handleModalInputChange_number
    [of "\<lparr>target_name = ''price'', target_value = ''12'', target_checked = False,
          target_type = ''number''\<rparr>" Number_literal blank_app]
  by (simp add: integer_literal_12)

text \<open>
  Claim C4 as stated fails: the input \<open>"-5"\<close> converts to a number below zero, and what
  is stored is the number \<open>0\<close>, which is not the string \<open>"0"\<close>.
\<close>

theorem handleModalInputChange_negative_counterexample:
  "num_lt (Number_literal (JStr ''-5'')) (Fin 0)
   \<and> field (templateProduct (handleModalInputChange Number_literal
         \<lparr>target_name = ''price'', target_value = ''-5'', target_checked = False,
          target_type = ''number''\<rparr> blank_app)) ''price'' = JNum (Fin 0)
   \<and> field (templateProduct (handleModalInputChange Number_literal
         \<lparr>target_name = ''price'', target_value = ''-5'', target_checked = False,
          target_type = ''number''\<rparr> blank_app)) ''price'' \<noteq> JStr ''0''"
  by (simp add: handleModalInputChange_def field_def Let_def integer_literal_minus_5)

section \<open>The modal\<close>

text \<open>
  Claim C9. Whatever the draft was, \<open>openModal\<close> replaces it: with no product given the
  draft is the blank template, with a product it is the product's properties over the
  blank template's; the mode is stored and the modal is shown. \<open>closeModal\<close> only hides
  the modal: the draft (and every other part of the state) stays.
\<close>

theorem openModal_replaces_draft:
  "templateProduct (openModal type None s) = initialProduct
   \<and> templateProduct (openModal type (Some p) s) = initialProduct ++ p
   \<and> field (templateProduct (openModal type (Some p) s)) k
       = (case p k of None \<Rightarrow> field initialProduct k | Some v \<Rightarrow> v)
   \<and> modeType (openModal type product s) = type
   \<and> modalShown (openModal type product s)
   \<and> closeModal s = s\<lparr>modalShown := False\<rparr>
   \<and> templateProduct (closeModal s) = templateProduct s
   \<and> \<not> modalShown (closeModal s)"
  by (simp add: openModal_def closeModal_def map_add_same field_merged)

text \<open>
  Claim C9 on a draft that was edited before: opening in \<open>add\<close> mode without a product
  starts from the blank template.
\<close>

theorem openModal_replaces_draft_witness:
  "templateProduct
     (openModal ''add'' None
        (blank_app\<lparr>templateProduct := initialProduct(''title'' \<mapsto> JStr ''old'')\<rparr>))
   = initialProduct"
  using openModal_replaces_draft
    [of "''add''" "blank_app\<lparr>templateProduct := initialProduct(''title'' \<mapsto> JStr ''old'')\<rparr>"]
  by simp

section \<open>Removing an image\<close>

lemma handleRemoveImage_primary:
  assumes "secondaries s = Some subs"
  shows "handleRemoveImage 0 s =
           Some (s\<lparr>templateProduct :=
                   (templateProduct s)
                     (''imageUrl'' \<mapsto> (case subs of [] \<Rightarrow> JStr '''' | newMain # rest \<Rightarrow> newMain),
                      ''imagesUrl'' \<mapsto> JArr (tl subs))\<rparr>)"
  using assms by (cases subs) (simp_all add: handleRemoveImage_def secondaries_def)

lemma handleRemoveImage_secondary:
  assumes "secondaries s = Some subs" and "0 < k"
  shows "handleRemoveImage k s =
           Some (s\<lparr>templateProduct :=
                   (templateProduct s)(''imagesUrl'' \<mapsto> JArr (take (k - 1) subs @ drop k subs))\<rparr>)"
  using assms by (simp add: handleRemoveImage_def secondaries_def)

text \<open>
  Claim C2. On a draft whose secondaries are the sequence \<open>subs\<close>, \<open>removeImage k\<close>
  returns a draft in which every property other than the two image properties is as
  before, and: for \<open>k = 0\<close> and no secondaries the primary is the empty string and the
  secondaries stay empty; for \<open>k = 0\<close> and some secondaries the first of them is the new
  primary and the rest, in order, are the secondaries; for \<open>1 \<le> k \<le> length subs\<close> the
  primary is kept and the secondaries are \<open>subs\<close> without the element at position
  \<open>k - 1\<close>: the elements before it followed directly by the elements after it. An
  index past the last image removes nothing.
\<close>

theorem handleRemoveImage_shifts:
  assumes "secondaries s = Some subs"
  shows "\<exists>s'. handleRemoveImage k s = Some s'
      \<and> (\<forall>key. key \<noteq> ''imageUrl'' \<and> key \<noteq> ''imagesUrl'' \<longrightarrow>
             field (templateProduct s') key = field (templateProduct s) key)
      \<and> (k = 0 \<and> subs = [] \<longrightarrow> primary s' = JStr '''' \<and> secondaries s' = Some [])
      \<and> (k = 0 \<and> subs \<noteq> [] \<longrightarrow> primary s' = hd subs \<and> secondaries s' = Some (tl subs))
      \<and> (1 \<le> k \<and> k \<le> length subs \<longrightarrow>
            primary s' = primary s
          \<and> secondaries s' = Some (take (k - 1) subs @ drop k subs)
          \<and> subs = take (k - 1) subs @ subs ! (k - 1) # drop k subs)
      \<and> (length subs < k \<longrightarrow> primary s' = primary s \<and> secondaries s' = Some subs)"
proof (cases "k = 0")
  case True
  show ?thesis
    unfolding True handleRemoveImage_primary [OF assms]
    by (cases subs) (simp_all add: field_upd_other)
next
  case False
  then have k: "0 < k" by simp
  have split: "k \<le> length subs \<Longrightarrow> subs = take (k - 1) subs @ subs ! (k - 1) # drop k subs"
    using k id_take_nth_drop [of "k - 1" subs] by simp
  show ?thesis
    unfolding handleRemoveImage_secondary [OF assms k]
    using k split by (simp add: primary_def field_upd_other)
qed

text \<open>
  Claim C2 on a draft with primary \<open>m\<close> and secondaries \<open>a\<close>, the empty string and \<open>c\<close>:
  removing the image at position 2 takes the middle secondary out.
\<close>

theorem handleRemoveImage_shifts_witness:
  "secondaries edited_app = Some [JStr ''a'', JStr '''', JStr ''c'']
   \<and> (\<exists>s'. handleRemoveImage 2 edited_app = Some s'
          \<and> primary s' = JStr ''m''
          \<and> secondaries s' = Some [JStr ''a'', JStr ''c''])"
proof -
  have h: "secondaries edited_app = Some [JStr ''a'', JStr '''', JStr ''c'']"
    by (simp add: edited_app_def)
  have p: "primary edited_app = JStr ''m''"
    by (simp add: edited_app_def field_upd_other)
  from handleRemoveImage_shifts [OF h, of 2] obtain s' where
    "handleRemoveImage 2 edited_app = Some s'" "primary s' = primary edited_app"
    "secondaries s' =
       Some (take (2 - 1) [JStr ''a'', JStr '''', JStr ''c''] @ drop 2 [JStr ''a'', JStr '''', JStr ''c''])"
    by auto
  then show ?thesis
    using h p by simp
qed

section \<open>Submitting the draft\<close>


lemma productData_array:
  "field t ''imagesUrl'' = JArr urls \<Longrightarrow>
   productData Number t =
     Inr (t(''origin_price'' \<mapsto> JNum (Number (field t ''origin_price'')),
            ''price'' \<mapsto> JNum (Number (field t ''price'')),
            ''is_enabled'' \<mapsto> JNum (if truthy (field t ''is_enabled'') then Fin 1 else Fin 0),
            ''imagesUrl'' \<mapsto> JArr (filter (\<lambda>url. url \<noteq> JStr '''') urls)))"
  by (simp add: productData_def strict_eq_JStr)

lemma productData_not_array:
  "\<forall>urls. field t ''imagesUrl'' \<noteq> JArr urls \<Longrightarrow> \<exists>thrown. productData Number t = Inl thrown"
  by (cases "field t ''imagesUrl''") (simp_all add: productData_def)

lemma updateProduct_throws:
  "productData Number (templateProduct s) = Inl thrown \<Longrightarrow>
   updateProduct Number res products_res s = (s, [], Thrown thrown)"
  by (simp add: updateProduct_def)

lemma updateProduct_request:
  assumes d: "productData Number (templateProduct s) = Inr d"
  shows "\<exists>v url fx. fst (snd (updateProduct Number res pres s))
                = adminRequest v url (JObj [''data'' \<mapsto> JObj d]) s # fx"
proof -
  obtain s2 fx2 c where g: "getProducts pres s = (s2, fx2, c)"
    by (cases "getProducts pres s") auto
  show ?thesis
    unfolding updateProduct_def d
    by (cases res; cases c) (auto simp: Let_def g update_catch_def getErrorMessage_object)
qed

text \<open>
  Claim C3. For every draft whose \<open>imagesUrl\<close> is an array, \<open>updateProduct\<close> builds a
  record \<open>d\<close> and sends it, wrapped as \<open>{data: d}\<close>, as the body of its request,
  whatever the mode and whatever the backend answers. In \<open>d\<close>, \<open>is_enabled\<close> is the
  number 1 when the draft's value is truthy and the number 0 when it is falsy,
  \<open>origin_price\<close> and \<open>price\<close> are the numbers that \<open>Number\<close> makes of the draft's
  values, and \<open>imagesUrl\<close> is the draft's array without its empty strings.
\<close>

theorem updateProduct_record:
  assumes "field (templateProduct s) ''imagesUrl'' = JArr urls"
  shows "\<exists>d v url fx sent.
           productData Number (templateProduct s) = Inr d
         \<and> fst (snd (updateProduct Number res pres s))
             = adminRequest v url (JObj [''data'' \<mapsto> JObj d]) s # fx
         \<and> field d ''is_enabled''
             = JNum (if truthy (field (templateProduct s) ''is_enabled'') then Fin 1 else Fin 0)
         \<and> field d ''origin_price'' = JNum (Number (field (templateProduct s) ''origin_price''))
         \<and> field d ''price'' = JNum (Number (field (templateProduct s) ''price''))
         \<and> field d ''imagesUrl'' = JArr sent
         \<and> sent = filter (\<lambda>url. url \<noteq> JStr '''') urls
         \<and> JStr '''' \<notin> set sent"
proof -
  let ?t = "templateProduct s"
  let ?d = "?t(''origin_price'' \<mapsto> JNum (Number (field ?t ''origin_price'')),
            ''price'' \<mapsto> JNum (Number (field ?t ''price'')),
            ''is_enabled'' \<mapsto> JNum (if truthy (field ?t ''is_enabled'') then Fin 1 else Fin 0),
            ''imagesUrl'' \<mapsto> JArr (filter (\<lambda>url. url \<noteq> JStr '''') urls))"
  have d: "productData Number ?t = Inr ?d"
    using assms by (rule productData_array)
  from updateProduct_request [OF d] obtain v url fx where
    req: "fst (snd (updateProduct Number res pres s))
            = adminRequest v url (JObj [''data'' \<mapsto> JObj ?d]) s # fx"
    by blast
  have 1: "field ?d ''is_enabled'' = JNum (if truthy (field ?t ''is_enabled'') then Fin 1 else Fin 0)"
    by (simp add: field_upd_other)
  have 2: "field ?d ''origin_price'' = JNum (Number (field ?t ''origin_price''))"
    by (simp add: field_upd_other)
  have 3: "field ?d ''price'' = JNum (Number (field ?t ''price''))"
    by (simp add: field_upd_other)
  have 4: "field ?d ''imagesUrl'' = JArr (filter (\<lambda>url. url \<noteq> JStr '''') urls)"
    by simp
  have 5: "JStr '''' \<notin> set (filter (\<lambda>url. url \<noteq> JStr '''') urls)"
    by simp
  show ?thesis
    by (intro exI conjI) (rule d req 1 2 3 4 refl 5)+
qed

text \<open>
  Claim C3 on the edited draft: the checkbox's \<open>true\<close> is sent as 1, the typed price
  \<open>"12"\<close> as the number 12, and the empty secondary image is dropped.
\<close>

theorem updateProduct_record_witness:
  "field (templateProduct edited_app) ''imagesUrl'' = JArr [JStr ''a'', JStr '''', JStr ''c'']
   \<and> (\<exists>d. productData Number_literal (templateProduct edited_app) = Inr d
         \<and> field d ''is_enabled'' = JNum (Fin 1)
         \<and> field d ''origin_price'' = JNum (Fin 0)
         \<and> field d ''price'' = JNum (Fin 12)
         \<and> field d ''imagesUrl'' = JArr [JStr ''a'', JStr ''c''])"
proof -
  have h: "field (templateProduct edited_app) ''imagesUrl'' = JArr [JStr ''a'', JStr '''', JStr ''c'']"
    by (simp add: edited_app_def)
  have v: "field (templateProduct edited_app) ''is_enabled'' = JBool True"
    "field (templateProduct edited_app) ''origin_price'' = JNum (Fin 0)"
    "field (templateProduct edited_app) ''price'' = JStr ''12''"
    by (simp_all add: edited_app_def initialProduct_def field_upd_other)
  from updateProduct_record [OF h, of Number_literal "Rejected Map.empty" "Rejected Map.empty"]
  obtain d sent where
    "productData Number_literal (templateProduct edited_app) = Inr d"
    "field d ''is_enabled''
       = JNum (if truthy (field (templateProduct edited_app) ''is_enabled'') then Fin 1 else Fin 0)"
    "field d ''origin_price'' = JNum (Number_literal (field (templateProduct edited_app) ''origin_price''))"
    "field d ''price'' = JNum (Number_literal (field (templateProduct edited_app) ''price''))"
    "field d ''imagesUrl'' = JArr sent"
    "sent = filter (\<lambda>url. url \<noteq> JStr '''') [JStr ''a'', JStr '''', JStr ''c'']"
    by blast
  then show ?thesis
    using h by (simp add: v integer_literal_12)
qed


section \<open>Toggling a product\<close>

text \<open>
  Claim C10. When the lookup finds no product with the given id, \<open>updateProductStatus\<close>
  returns normally whatever the backend would have answered: the state is unchanged, and
  its only effect is one \<open>console.error\<close> with the formatted TypeError of the failed
  property read; no request is sent.
\<close>

theorem updateProductStatus_absent:
  assumes "find (\<lambda>product. strict_eq (field product ''id'') ident) (products s) = None"
  shows "updateProductStatus ident res s =
           (s, [ConsoleError [JStr api_error, formatted (cannot_read ''undefined'' ''is_enabled'')]],
            Returned)"
  by (simp add: updateProductStatus_def assms status_catch_def getErrorMessage_object)

text \<open>Claim C10 on the two-product list and the id \<open>p9\<close>, which neither product has.\<close>

theorem updateProductStatus_absent_witness:
  "find (\<lambda>product. strict_eq (field product ''id'') (JStr ''p9'')) (products listed_app) = None
   \<and> fst (updateProductStatus (JStr ''p9'') (Fulfilled (JStr ''ok'')) listed_app) = listed_app
   \<and> snd (snd (updateProductStatus (JStr ''p9'') (Fulfilled (JStr ''ok'')) listed_app)) = Returned"
proof -
  have h: "find (\<lambda>product. strict_eq (field product ''id'') (JStr ''p9'')) (products listed_app) = None"
    by (simp add: listed_app_def field_def)
  from updateProductStatus_absent [OF h, of "Fulfilled (JStr ''ok'')"] show ?thesis
    using h by simp
qed



lemma find_unique:
  assumes "p \<in> set xs" and "P p" and "\<forall>q \<in> set xs. P q \<longrightarrow> q = p"
  shows "find P xs = Some p"
  using assms
proof (induction xs)
  case Nil
  then show ?case by simp
next
  case (Cons a xs)
  show ?case
  proof (cases "P a")
    case True
    then have "a = p" using Cons.prems(3) by simp
    with True show ?thesis by simp
  next
    case False
    then have "a \<noteq> p" using Cons.prems(2) by blast
    then have "p \<in> set xs" using Cons.prems(1) by simp
    moreover have "\<forall>q \<in> set xs. P q \<longrightarrow> q = p" using Cons.prems(3) by simp
    ultimately have "find P xs = Some p" using Cons.IH Cons.prems(2) by blast
    with False show ?thesis by simp
  qed
qed

lemma find_identified:
  assumes "identifies ident p s"
  shows "find (\<lambda>product. strict_eq (field product ''id'') ident) (products s) = Some p"
proof (rule find_unique)
  show "p \<in> set (products s)" using assms by (simp add: identifies_def)
  show "strict_eq (field p ''id'') ident" using assms by (simp add: identifies_def)
  show "\<forall>q \<in> set (products s). strict_eq (field q ''id'') ident \<longrightarrow> q = p"
    using assms by (simp add: identifies_def)
qed



lemma map_identified:
  assumes "identifies ident p s"
  shows "map (\<lambda>item. if strict_eq (field item ''id'') ident then item(''is_enabled'' \<mapsto> v) else item) (products s)
   = map (\<lambda>item. if item = p then p(''is_enabled'' \<mapsto> v) else item) (products s)"
proof (rule map_cong [OF refl])
  fix x
  assume x: "x \<in> set (products s)"
  show "(if strict_eq (field x ''id'') ident then x(''is_enabled'' \<mapsto> v) else x)
        = (if x = p then p(''is_enabled'' \<mapsto> v) else x)"
  proof (cases "x = p")
    case True
    moreover have "strict_eq (field p ''id'') ident"
      using assms by (simp add: identifies_def)
    ultimately show ?thesis by simp
  next
    case False
    then have "\<not> strict_eq (field x ''id'') ident"
      using assms x unfolding identifies_def by blast
    with False show ?thesis by simp
  qed
qed



lemma strict_eq_one: "strict_eq v (JNum (Fin 1)) = (v = JNum (Fin 1))"
  by (cases v) auto

lemma toggled_cases:
  "(toggled p = JNum (Fin 0)) = (field p ''is_enabled'' = JNum (Fin 1))"
  "(toggled p = JNum (Fin 1)) = (field p ''is_enabled'' \<noteq> JNum (Fin 1))"
  by (simp_all add: toggled_def strict_eq_one)


lemma updateProductStatus_fulfilled:
  assumes f: "find (\<lambda>product. strict_eq (field product ''id'') ident) (products s) = Some p"
  shows "updateProductStatus ident (Fulfilled message) s =
           (s\<lparr>products := map (\<lambda>item. if strict_eq (field item ''id'') ident
                                    then item(''is_enabled'' \<mapsto> toggled p) else item) (products s)\<rparr>,
            [adminRequest PUT [Lit ''product/'', Sub ident]
               (JObj [''data'' \<mapsto> JObj (p(''is_enabled'' \<mapsto> toggled p))]) s,
             Alert [Sub message]], Returned)"
  unfolding updateProductStatus_def f by (simp add: Let_def)

lemma updateProductStatus_rejected:
  assumes f: "find (\<lambda>product. strict_eq (field product ''id'') ident) (products s) = Some p"
  shows "updateProductStatus ident (Rejected error) s =
           (s, [adminRequest PUT [Lit ''product/'', Sub ident]
                  (JObj [''data'' \<mapsto> JObj (p(''is_enabled'' \<mapsto> toggled p))]) s,
                ConsoleError [JStr api_error, formatted error]], Returned)"
  unfolding updateProductStatus_def f
  by (simp add: Let_def status_catch_def getErrorMessage_object)

theorem updateProductStatus_flips:
  assumes "identifies ident p s"
  shows "updateProductStatus ident (Fulfilled message) s =
           (s\<lparr>products := map (\<lambda>item. if item = p then p(''is_enabled'' \<mapsto> toggled p) else item) (products s)\<rparr>,
            [adminRequest PUT [Lit ''product/'', Sub ident]
               (JObj [''data'' \<mapsto> JObj (p(''is_enabled'' \<mapsto> toggled p))]) s,
             Alert [Sub message]], Returned)
       \<and> (toggled p = JNum (Fin 0)) = (field p ''is_enabled'' = JNum (Fin 1))
       \<and> (toggled p = JNum (Fin 1)) = (field p ''is_enabled'' \<noteq> JNum (Fin 1))
       \<and> (\<forall>key. key \<noteq> ''is_enabled'' \<longrightarrow> field (p(''is_enabled'' \<mapsto> toggled p)) key = field p key)
       \<and> updateProductStatus ident (Rejected error) s =
           (s, [adminRequest PUT [Lit ''product/'', Sub ident]
                  (JObj [''data'' \<mapsto> JObj (p(''is_enabled'' \<mapsto> toggled p))]) s,
                ConsoleError [JStr api_error, formatted error]], Returned)"
proof -
  have f: "find (\<lambda>product. strict_eq (field product ''id'') ident) (products s) = Some p"
    using assms by (rule find_identified)
  have ok: "updateProductStatus ident (Fulfilled message) s =
           (s\<lparr>products := map (\<lambda>item. if item = p then p(''is_enabled'' \<mapsto> toggled p) else item) (products s)\<rparr>,
            [adminRequest PUT [Lit ''product/'', Sub ident]
               (JObj [''data'' \<mapsto> JObj (p(''is_enabled'' \<mapsto> toggled p))]) s,
             Alert [Sub message]], Returned)"
    unfolding updateProductStatus_fulfilled [OF f] map_identified [OF assms] ..
  have frame: "\<forall>key. key \<noteq> ''is_enabled'' \<longrightarrow> field (p(''is_enabled'' \<mapsto> toggled p)) key = field p key"
    by (simp add: field_upd_other)
  show ?thesis
    by (intro conjI) (rule ok toggled_cases frame updateProductStatus_rejected [OF f])+
qed


text \<open>
  Claim C7 on the two-product list: toggling \<open>p1\<close>, which is enabled, disables it and
  leaves \<open>p2\<close> as it is.
\<close>

theorem updateProductStatus_flips_witness:
  "identifies (JStr ''p1'')
     [''id'' \<mapsto> JStr ''p1'', ''title'' \<mapsto> JStr ''tea'', ''is_enabled'' \<mapsto> JNum (Fin 1)] listed_app
   \<and> products (fst (updateProductStatus (JStr ''p1'') (Fulfilled (JStr ''ok'')) listed_app))
       = [[''id'' \<mapsto> JStr ''p1'', ''title'' \<mapsto> JStr ''tea'', ''is_enabled'' \<mapsto> JNum (Fin 0)],
          [''id'' \<mapsto> JStr ''p2'', ''title'' \<mapsto> JStr ''cup'', ''is_enabled'' \<mapsto> JNum (Fin 0)]]"
proof -
  let ?p1 = "[''id'' \<mapsto> JStr ''p1'', ''title'' \<mapsto> JStr ''tea'', ''is_enabled'' \<mapsto> JNum (Fin 1)]"
  let ?p2 = "[''id'' \<mapsto> JStr ''p2'', ''title'' \<mapsto> JStr ''cup'', ''is_enabled'' \<mapsto> JNum (Fin 0)]"
  have ne: "?p2 \<noteq> ?p1"
  proof
    assume "?p2 = ?p1"
    then have "?p2 ''id'' = ?p1 ''id''" by (rule fun_cong)
    then show False by simp
  qed
  have l: "products listed_app = [?p1, ?p2]"
    by (simp add: listed_app_def)
  have h: "identifies (JStr ''p1'') ?p1 listed_app"
    unfolding identifies_def l by (simp add: field_def)
  have t: "toggled ?p1 = JNum (Fin 0)"
    by (simp add: toggled_def field_def)
  from updateProductStatus_flips [OF h, of "JStr ''ok''"]
  have "products (fst (updateProductStatus (JStr ''p1'') (Fulfilled (JStr ''ok'')) listed_app))
          = map (\<lambda>item. if item = ?p1 then ?p1(''is_enabled'' \<mapsto> toggled ?p1) else item)
              (products listed_app)"
    by simp
  then show ?thesis
    unfolding l t using ne h by simp
qed



section \<open>The session controller\<close>

lemma getProducts_fulfilled:
  "getProducts (Fulfilled ps) s =
     (s\<lparr>products := ps\<rparr>, [adminRequest GET [Lit ''products''] JUndefined s], Returned)"
  by (simp add: getProducts_def)

lemma getProducts_rejected:
  "getProducts (Rejected error) s =
     (s, [adminRequest GET [Lit ''products''] JUndefined s,
          ConsoleError [JStr api_error, formatted error]], Returned)"
  by (simp add: getProducts_def getErrorMessage_object)

lemma adminRequest_setToken:
  "adminRequest v url body (setToken token expired s) =
     Request AdminApi v url body (if truthy token then token else JUndefined)"
  by (simp add: adminRequest_def getToken_def setToken_def)

lemma handleLogin_fulfilled:
  "handleLogin account (Fulfilled (token, expired)) (Fulfilled ps) s =
     (s\<lparr>isLoading := False, credential := Some (token, expired), products := ps, isAuth := True\<rparr>,
      [Request AuthApi POST [Lit ''admin/signin''] account JUndefined,
       Request AdminApi GET [Lit ''products''] JUndefined (if truthy token then token else JUndefined)],
      Returned)"
  by (simp add: handleLogin_def getProducts_fulfilled adminRequest_setToken)
     (simp add: setToken_def)

lemma handleLogin_fetch_rejected:
  "handleLogin account (Fulfilled (token, expired)) (Rejected fetch_error) s =
     (s\<lparr>isLoading := False, credential := Some (token, expired), isAuth := True\<rparr>,
      [Request AuthApi POST [Lit ''admin/signin''] account JUndefined,
       Request AdminApi GET [Lit ''products''] JUndefined (if truthy token then token else JUndefined),
       ConsoleError [JStr api_error, formatted fetch_error]],
      Returned)"
  by (simp add: handleLogin_def getProducts_rejected adminRequest_setToken)
     (simp add: setToken_def)

lemma handleLogin_rejected:
  "handleLogin account (Rejected error) products_res s =
     (s\<lparr>isLoading := False\<rparr>,
      [Request AuthApi POST [Lit ''admin/signin''] account JUndefined,
       Alert [Sub (formatted error), Lit ''!'']],
      Thrown error)"
  by (simp add: handleLogin_def login_catch_def getErrorMessage_object)

text \<open>
  Claim C6. When the sign-in request is fulfilled with a token and its expiry,
  \<open>handleLogin\<close> stores both in the token store, requests the product list with the new
  token, sets \<open>isAuth\<close> and returns; the list is replaced when that request is fulfilled
  and the failure is only logged when it is rejected. When the sign-in request is
  rejected, \<open>isAuth\<close> is as it was, the formatted error is shown in an alert, and the
  caught error is thrown again to the caller. The loading flag is cleared in every case.
\<close>

theorem handleLogin_outcomes:
  "handleLogin account (Fulfilled (token, expired)) (Fulfilled ps) s =
     (s\<lparr>isLoading := False, credential := Some (token, expired), products := ps, isAuth := True\<rparr>,
      [Request AuthApi POST [Lit ''admin/signin''] account JUndefined,
       Request AdminApi GET [Lit ''products''] JUndefined (if truthy token then token else JUndefined)],
      Returned)
   \<and> handleLogin account (Fulfilled (token, expired)) (Rejected fetch_error) s =
     (s\<lparr>isLoading := False, credential := Some (token, expired), isAuth := True\<rparr>,
      [Request AuthApi POST [Lit ''admin/signin''] account JUndefined,
       Request AdminApi GET [Lit ''products''] JUndefined (if truthy token then token else JUndefined),
       ConsoleError [JStr api_error, formatted fetch_error]],
      Returned)
   \<and> handleLogin account (Rejected error) products_res s =
     (s\<lparr>isLoading := False\<rparr>,
      [Request AuthApi POST [Lit ''admin/signin''] account JUndefined,
       Alert [Sub (formatted error), Lit ''!'']],
      Thrown error)
   \<and> isAuth (fst (handleLogin account (Rejected error) products_res s)) = isAuth s
   \<and> getErrorMessage (JObj error) = Inr (formatted error)"
  by (simp add: handleLogin_fulfilled handleLogin_fetch_rejected handleLogin_rejected
      getErrorMessage_object)

text \<open>
  Claim C6 from the state at mount: a login that the backend accepts, and one that fails
  with a network error.
\<close>

theorem handleLogin_outcomes_witness:
  "isAuth (fst (handleLogin (JStr ''me'') (Fulfilled (JStr ''tok'', JNum (Fin 99)))
                  (Fulfilled (products listed_app)) blank_app))
   \<and> credential (fst (handleLogin (JStr ''me'') (Fulfilled (JStr ''tok'', JNum (Fin 99)))
                  (Fulfilled (products listed_app)) blank_app)) = Some (JStr ''tok'', JNum (Fin 99))
   \<and> products (fst (handleLogin (JStr ''me'') (Fulfilled (JStr ''tok'', JNum (Fin 99)))
                  (Fulfilled (products listed_app)) blank_app)) = products listed_app
   \<and> \<not> isAuth (fst (handleLogin (JStr ''me'') (Rejected [''message'' \<mapsto> JStr ''Network Error''])
                  (Fulfilled []) blank_app))
   \<and> snd (handleLogin (JStr ''me'') (Rejected [''message'' \<mapsto> JStr ''Network Error''])
                  (Fulfilled []) blank_app)
       = ([Request AuthApi POST [Lit ''admin/signin''] (JStr ''me'') JUndefined,
           Alert [Sub (JStr ''Network Error''), Lit ''!'']],
          Thrown [''message'' \<mapsto> JStr ''Network Error''])"
proof -
  have m: "formatted [''message'' \<mapsto> JStr ''Network Error''] = JStr ''Network Error''"
    by (simp add: formatted_def field_def)
  have b: "\<not> isAuth blank_app"
    by (simp add: blank_app_def)
  show ?thesis
    using handleLogin_outcomes
      [of "JStr ''me''" "JStr ''tok''" "JNum (Fin 99)" "products listed_app" blank_app
          Map.empty "[''message'' \<mapsto> JStr ''Network Error'']" "Fulfilled []"]
    by (simp add: m b)
qed

lemma checkAdmin_no_token:
  "\<not> truthy (getToken s) \<Longrightarrow>
   checkAdmin res products_res s =
     (s\<lparr>isLoading := False, isCheckingAuth := False, isAuth := False\<rparr>, [], Returned)"
  by (simp add: checkAdmin_def getToken_def Let_def)

lemma checkAdmin_verified:
  "truthy (getToken s) \<Longrightarrow> truthy success \<Longrightarrow>
   checkAdmin (Fulfilled success) (Fulfilled ps) s =
     (s\<lparr>isLoading := False, isCheckingAuth := False, products := ps, isAuth := True\<rparr>,
      [Request AuthApi POST [Lit ''api/user/check''] JNull (getToken s),
       Request AdminApi GET [Lit ''products''] JUndefined (getToken s)],
      Returned)"
  by (simp add: checkAdmin_def getToken_def getProducts_fulfilled adminRequest_def Let_def)

lemma checkAdmin_rejected:
  "truthy (getToken s) \<Longrightarrow>
   checkAdmin (Rejected error) products_res s =
     (s\<lparr>isLoading := False, isCheckingAuth := False, isAuth := False\<rparr>,
      [Request AuthApi POST [Lit ''api/user/check''] JNull (getToken s),
       Alert [Lit verify_failed, Sub (formatted error)]],
      Returned)"
  by (simp add: checkAdmin_def getToken_def check_catch_def getErrorMessage_object Let_def)

lemma checkAdmin_not_success:
  "truthy (getToken s) \<Longrightarrow> \<not> truthy success \<Longrightarrow>
   checkAdmin (Fulfilled success) products_res s =
     (s\<lparr>isLoading := False, isCheckingAuth := False, isAuth := False\<rparr>,
      [Request AuthApi POST [Lit ''api/user/check''] JNull (getToken s)],
      Returned)"
  by (simp add: checkAdmin_def getToken_def Let_def)

lemma checkAdmin_fetch_rejected:
  "truthy (getToken s) \<Longrightarrow> truthy success \<Longrightarrow>
   checkAdmin (Fulfilled success) (Rejected fetch_error) s =
     (s\<lparr>isLoading := False, isCheckingAuth := False, isAuth := True\<rparr>,
      [Request AuthApi POST [Lit ''api/user/check''] JNull (getToken s),
       Request AdminApi GET [Lit ''products''] JUndefined (getToken s),
       ConsoleError [JStr api_error, formatted fetch_error]],
      Returned)"
  by (simp add: checkAdmin_def getToken_def getProducts_rejected adminRequest_def Let_def)

lemma checkAdmin_verified_isAuth:
  assumes "truthy (getToken s)" and "truthy success"
  shows "isAuth (fst (checkAdmin (Fulfilled success) products_res s))"
proof (cases products_res)
  case (Fulfilled ps)
  show ?thesis
    unfolding Fulfilled checkAdmin_verified [OF assms] by simp
next
  case (Rejected fetch_error)
  show ?thesis
    unfolding Rejected checkAdmin_fetch_rejected [OF assms] by simp
qed

text \<open>
  Claim C5, as amended. With no stored credential \<open>checkAdmin\<close> clears \<open>isAuth\<close> and
  sends nothing. With a stored token and a verification fulfilled with a truthy
  \<open>success\<close>, it requests the product list after the verification and then sets
  \<open>isAuth\<close>, whatever the answer to that request: a list that arrives is stored, a
  rejected request is only logged and leaves the list as it was. When the verification
  request is rejected, \<open>isAuth\<close> is cleared and an alert shows the formatted error; when
  it is fulfilled with a falsy \<open>success\<close>, \<open>isAuth\<close> is cleared and there is no alert.
  In both failure cases the stored credential and the product list are left as they were.
\<close>

theorem checkAdmin_outcomes:
  "(credential s = None \<longrightarrow>
      checkAdmin res products_res s =
        (s\<lparr>isLoading := False, isCheckingAuth := False, isAuth := False\<rparr>, [], Returned))
   \<and> (truthy (getToken s) \<and> truthy success \<longrightarrow>
      isAuth (fst (checkAdmin (Fulfilled success) products_res s))
      \<and> checkAdmin (Fulfilled success) (Fulfilled ps) s =
        (s\<lparr>isLoading := False, isCheckingAuth := False, products := ps, isAuth := True\<rparr>,
         [Request AuthApi POST [Lit ''api/user/check''] JNull (getToken s),
          Request AdminApi GET [Lit ''products''] JUndefined (getToken s)],
         Returned)
      \<and> checkAdmin (Fulfilled success) (Rejected fetch_error) s =
        (s\<lparr>isLoading := False, isCheckingAuth := False, isAuth := True\<rparr>,
         [Request AuthApi POST [Lit ''api/user/check''] JNull (getToken s),
          Request AdminApi GET [Lit ''products''] JUndefined (getToken s),
          ConsoleError [JStr api_error, formatted fetch_error]],
         Returned))
   \<and> (truthy (getToken s) \<longrightarrow>
      checkAdmin (Rejected error) products_res s =
        (s\<lparr>isLoading := False, isCheckingAuth := False, isAuth := False\<rparr>,
         [Request AuthApi POST [Lit ''api/user/check''] JNull (getToken s),
          Alert [Lit verify_failed, Sub (formatted error)]],
         Returned))
   \<and> (truthy (getToken s) \<and> \<not> truthy success \<longrightarrow>
      checkAdmin (Fulfilled success) products_res s =
        (s\<lparr>isLoading := False, isCheckingAuth := False, isAuth := False\<rparr>,
         [Request AuthApi POST [Lit ''api/user/check''] JNull (getToken s)],
         Returned))"
proof (intro conjI impI)
  assume "credential s = None"
  then have "\<not> truthy (getToken s)"
    by (simp add: getToken_def)
  then show "checkAdmin res products_res s =
        (s\<lparr>isLoading := False, isCheckingAuth := False, isAuth := False\<rparr>, [], Returned)"
    by (rule checkAdmin_no_token)
next
  assume "truthy (getToken s) \<and> truthy success"
  then show "isAuth (fst (checkAdmin (Fulfilled success) products_res s))"
    by (simp add: checkAdmin_verified_isAuth)
next
  assume "truthy (getToken s) \<and> truthy success"
  then show "checkAdmin (Fulfilled success) (Fulfilled ps) s =
        (s\<lparr>isLoading := False, isCheckingAuth := False, products := ps, isAuth := True\<rparr>,
         [Request AuthApi POST [Lit ''api/user/check''] JNull (getToken s),
          Request AdminApi GET [Lit ''products''] JUndefined (getToken s)],
         Returned)"
    by (simp add: checkAdmin_verified)
next
  assume "truthy (getToken s) \<and> truthy success"
  then show "checkAdmin (Fulfilled success) (Rejected fetch_error) s =
        (s\<lparr>isLoading := False, isCheckingAuth := False, isAuth := True\<rparr>,
         [Request AuthApi POST [Lit ''api/user/check''] JNull (getToken s),
          Request AdminApi GET [Lit ''products''] JUndefined (getToken s),
          ConsoleError [JStr api_error, formatted fetch_error]],
         Returned)"
    by (simp add: checkAdmin_fetch_rejected)
next
  assume "truthy (getToken s)"
  then show "checkAdmin (Rejected error) products_res s =
        (s\<lparr>isLoading := False, isCheckingAuth := False, isAuth := False\<rparr>,
         [Request AuthApi POST [Lit ''api/user/check''] JNull (getToken s),
          Alert [Lit verify_failed, Sub (formatted error)]],
         Returned)"
    by (rule checkAdmin_rejected)
next
  assume "truthy (getToken s) \<and> \<not> truthy success"
  then show "checkAdmin (Fulfilled success) products_res s =
        (s\<lparr>isLoading := False, isCheckingAuth := False, isAuth := False\<rparr>,
         [Request AuthApi POST [Lit ''api/user/check''] JNull (getToken s)],
         Returned)"
    by (simp add: checkAdmin_not_success)
qed

text \<open>
  Claim C5, as amended, at application start with a token in the cookie: a verification
  that fails in transport signs the user out with an alert, and a verification that
  succeeds signs the user in although the product list cannot be fetched.
\<close>

theorem checkAdmin_outcomes_witness:
  "truthy (getToken returning_app)
   \<and> checkAdmin (Rejected [''message'' \<mapsto> JStr ''Network Error'']) (Fulfilled []) returning_app =
        (returning_app\<lparr>isLoading := False, isCheckingAuth := False, isAuth := False\<rparr>,
         [Request AuthApi POST [Lit ''api/user/check''] JNull (JStr ''tok''),
          Alert [Lit verify_failed, Sub (JStr ''Network Error'')]],
         Returned)
   \<and> checkAdmin (Fulfilled (JBool True)) (Rejected [''message'' \<mapsto> JStr ''Network Error''])
         returning_app =
        (returning_app\<lparr>isLoading := False, isCheckingAuth := False, isAuth := True\<rparr>,
         [Request AuthApi POST [Lit ''api/user/check''] JNull (JStr ''tok''),
          Request AdminApi GET [Lit ''products''] JUndefined (JStr ''tok''),
          ConsoleError [JStr api_error, JStr ''Network Error'']],
         Returned)"
proof -
  have m: "formatted [''message'' \<mapsto> JStr ''Network Error''] = JStr ''Network Error''"
    by (simp add: formatted_def field_def)
  have t: "getToken returning_app = JStr ''tok''"
    by (simp add: getToken_def returning_app_def)
  show ?thesis
    using checkAdmin_outcomes
      [where s = returning_app and products_res = "Fulfilled []" and success = "JBool True"
         and error = "[''message'' \<mapsto> JStr ''Network Error'']"
         and fetch_error = "[''message'' \<mapsto> JStr ''Network Error'']"]
    by (simp add: m t)
qed

text \<open>
  Claim C5 as stated fails: at application start with a token in the cookie and a
  verification response whose \<open>success\<close> is \<open>false\<close>, the only effect is the
  verification request. No alert is shown.
\<close>

theorem checkAdmin_success_false_counterexample:
  "truthy (getToken returning_app)
   \<and> checkAdmin (Fulfilled (JBool False)) (Fulfilled []) returning_app =
        (returning_app\<lparr>isLoading := False, isCheckingAuth := False, isAuth := False\<rparr>,
         [Request AuthApi POST [Lit ''api/user/check''] JNull (JStr ''tok'')],
         Returned)"
proof -
  have t: "getToken returning_app = JStr ''tok''"
    by (simp add: getToken_def returning_app_def)
  show ?thesis
    using checkAdmin_not_success [of returning_app "JBool False" "Fulfilled []"]
    by (simp add: t)
qed

section \<open>Adding images\<close>

lemma handleAddImage_empty: "tempImageInput s = '''' \<Longrightarrow> handleAddImage s = Some (s, [])"
  by (simp add: handleAddImage_def)

lemma handleAddImage_full:
  assumes "secondaries s = Some subs" and "4 \<le> image_count s"
  shows "\<exists>fx. handleAddImage s = Some (s, fx)"
proof (cases "tempImageInput s = ''''")
  case True
  then show ?thesis by (simp add: handleAddImage_empty)
next
  case False
  have "or_empty (field (templateProduct s) ''imagesUrl'') = Some subs"
    using assms(1) by (simp add: secondaries_def)
  moreover have "4 \<le> (if truthy (field (templateProduct s) ''imageUrl'') then 1 else 0) + length subs"
    using assms by (simp add: image_count_def primary_def)
  ultimately show ?thesis
    using False by (simp add: handleAddImage_def Let_def)
qed

lemma handleAddImage_primary:
  assumes "tempImageInput s \<noteq> ''''" and "secondaries s = Some subs" and "image_count s < 4"
    and "\<not> truthy (primary s)"
  shows "handleAddImage s =
           Some (s\<lparr>templateProduct := (templateProduct s)(''imageUrl'' \<mapsto> JStr (tempImageInput s)),
                   tempImageInput := ''''\<rparr>, [])"
proof -
  have "or_empty (field (templateProduct s) ''imagesUrl'') = Some subs"
    using assms(2) by (simp add: secondaries_def)
  moreover have "\<not> truthy (field (templateProduct s) ''imageUrl'')"
    using assms(4) by (simp add: primary_def)
  moreover have "length subs < 4"
    using assms(2,3,4) by (simp add: image_count_def)
  ultimately show ?thesis
    using assms(1) by (simp add: handleAddImage_def Let_def)
qed

lemma handleAddImage_secondary:
  assumes "tempImageInput s \<noteq> ''''" and "secondaries s = Some subs" and "image_count s < 4"
    and "truthy (primary s)"
  shows "handleAddImage s =
           Some (s\<lparr>templateProduct :=
                     (templateProduct s)(''imagesUrl'' \<mapsto> JArr (subs @ [JStr (tempImageInput s)])),
                   tempImageInput := ''''\<rparr>, [])"
proof -
  have "or_empty (field (templateProduct s) ''imagesUrl'') = Some subs"
    using assms(2) by (simp add: secondaries_def)
  moreover have "truthy (field (templateProduct s) ''imageUrl'')"
    using assms(4) by (simp add: primary_def)
  moreover have "Suc (length subs) < 4"
    using assms(2,3,4) by (simp add: image_count_def)
  ultimately show ?thesis
    using assms(1) by (simp add: handleAddImage_def Let_def)
qed

lemma typed_images [simp]:
  "primary (s\<lparr>tempImageInput := url\<rparr>) = primary s"
  "secondaries (s\<lparr>tempImageInput := url\<rparr>) = secondaries s"
  "image_count (s\<lparr>tempImageInput := url\<rparr>) = image_count s"
  "image_inv (s\<lparr>tempImageInput := url\<rparr>) = image_inv s"
  by (simp_all add: primary_def secondaries_def image_count_def image_inv_def)

lemma addImage_step:
  assumes inv: "image_inv s" and url: "url \<noteq> ''''"
  shows "\<exists>s' fx. addImage url s = Some (s', fx) \<and> image_inv s'
           \<and> (secondaries s' \<noteq> secondaries s \<longrightarrow> truthy (primary s) \<and> primary s' = primary s)"
proof -
  let ?s = "s\<lparr>tempImageInput := url\<rparr>"
  from inv obtain subs where subs: "secondaries s = Some subs" and le: "image_count s \<le> 4"
    by (auto simp: image_inv_def)
  have t: "tempImageInput ?s \<noteq> ''''" "tempImageInput ?s = url"
    using url by simp_all
  have subs': "secondaries ?s = Some subs"
    using subs by simp
  consider (full) "4 \<le> image_count s"
    | (first) "image_count s < 4" "\<not> truthy (primary s)"
    | (more) "image_count s < 4" "truthy (primary s)"
    by linarith
  then show ?thesis
  proof cases
    case full
    then have "4 \<le> image_count ?s" by simp
    from handleAddImage_full [OF subs' this] obtain fx where "handleAddImage ?s = Some (?s, fx)" ..
    then show ?thesis
      using inv by (simp add: addImage_def)
  next
    case first
    then have c: "image_count ?s < 4" "\<not> truthy (primary ?s)" by simp_all
    let ?r = "?s\<lparr>templateProduct := (templateProduct ?s)(''imageUrl'' \<mapsto> JStr (tempImageInput ?s)),
                 tempImageInput := ''''\<rparr>"
    have r: "handleAddImage ?s = Some (?r, [])"
      by (rule handleAddImage_primary [OF t(1) subs' c])
    have sec: "secondaries ?r = Some subs"
      using subs by (simp add: secondaries_def field_upd_other)
    have "length subs < 4"
      using first subs by (simp add: image_count_def)
    then have "image_count ?r \<le> 4"
      using sec by (simp add: image_count_def)
    then have "image_inv ?r"
      using sec by (simp add: image_inv_def)
    then show ?thesis
      using r sec subs by (simp add: addImage_def)
  next
    case more
    then have c: "image_count ?s < 4" "truthy (primary ?s)" by simp_all
    let ?r = "?s\<lparr>templateProduct :=
                   (templateProduct ?s)(''imagesUrl'' \<mapsto> JArr (subs @ [JStr (tempImageInput ?s)])),
                 tempImageInput := ''''\<rparr>"
    have r: "handleAddImage ?s = Some (?r, [])"
      by (rule handleAddImage_secondary [OF t(1) subs' c])
    have sec: "secondaries ?r = Some (subs @ [JStr url])"
      by (simp add: secondaries_def)
    have pri: "primary ?r = primary s"
      by (simp add: primary_def field_upd_other)
    have "Suc (length subs) < 4"
      using more subs by (simp add: image_count_def)
    then have "image_count ?r \<le> 4"
      using sec pri more(2) by (simp add: image_count_def)
    then have "image_inv ?r"
      using sec by (simp add: image_inv_def)
    then show ?thesis
      using r pri more(2) by (simp add: addImage_def)
  qed
qed

lemma addImages_inv:
  "image_inv s \<Longrightarrow> '''' \<notin> set urls \<Longrightarrow> \<exists>s'. addImages urls s = Some s' \<and> image_inv s'"
proof (induction urls arbitrary: s)
  case Nil
  then show ?case by simp
next
  case (Cons url urls)
  then have "url \<noteq> ''''" by auto
  from addImage_step [OF Cons.prems(1) this] obtain s1 fx where
    s1: "addImage url s = Some (s1, fx)" "image_inv s1"
    by blast
  have "'''' \<notin> set urls" using Cons.prems(2) by simp
  from Cons.IH [OF s1(2) this] show ?case
    using s1(1) by simp
qed

lemma addImages_snoc:
  "addImages (urls @ [url]) s =
     (case addImages urls s of None \<Rightarrow> None
      | Some s1 \<Rightarrow> (case addImage url s1 of None \<Rightarrow> None | Some (s2, fx) \<Rightarrow> Some s2))"
  by (induction urls arbitrary: s) (simp_all split: option.splits prod.splits)

text \<open>
  Claim C1. Start from a draft that satisfies the image invariant and add any sequence of
  non-empty URLs, one \<open>addImage\<close> call each. Every call returns, and after every call
  the draft holds at most four images. A call changes the secondaries only when the
  primary was already filled before that call, and it then leaves the primary alone:
  while the primary is empty the URL goes there. \<open>handleAddImage\<close> returns the state
  unchanged when the pending URL is the empty string (no effect at all) and when the draft
  already holds four images (its only effect is the alert that four is the maximum).
\<close>

theorem addImage_bounded_primary_first:
  assumes "image_inv s" and "'''' \<notin> set urls"
  shows "(\<exists>s'. addImages urls s = Some s' \<and> image_inv s' \<and> image_count s' \<le> 4)
       \<and> (\<forall>n < length urls. \<exists>a b.
             addImages (take n urls) s = Some a \<and> addImages (take (Suc n) urls) s = Some b
           \<and> image_count a \<le> 4 \<and> image_count b \<le> 4
           \<and> (secondaries b \<noteq> secondaries a \<longrightarrow> truthy (primary a) \<and> primary b = primary a))
       \<and> (tempImageInput s = '''' \<longrightarrow> handleAddImage s = Some (s, []))
       \<and> (image_count s = 4 \<longrightarrow> (\<exists>fx. handleAddImage s = Some (s, fx)))"
proof (intro conjI allI impI)
  from addImages_inv [OF assms] show "\<exists>s'. addImages urls s = Some s' \<and> image_inv s' \<and> image_count s' \<le> 4"
    by (auto simp: image_inv_def)
next
  fix n
  assume n: "n < length urls"
  have "'''' \<notin> set (take n urls)"
    using assms(2) by (meson in_set_takeD)
  from addImages_inv [OF assms(1) this] obtain a where
    a: "addImages (take n urls) s = Some a" "image_inv a"
    by blast
  have "urls ! n \<in> set urls" using n by simp
  then have "urls ! n \<noteq> ''''" using assms(2) by metis
  from addImage_step [OF a(2) this] obtain b fx where
    b: "addImage (urls ! n) a = Some (b, fx)" "image_inv b"
       "secondaries b \<noteq> secondaries a \<longrightarrow> truthy (primary a) \<and> primary b = primary a"
    by blast
  have "take (Suc n) urls = take n urls @ [urls ! n]"
    using n by (simp add: take_Suc_conv_app_nth)
  then have "addImages (take (Suc n) urls) s = Some b"
    using a(1) b(1) by (simp add: addImages_snoc)
  then show "\<exists>a b. addImages (take n urls) s = Some a \<and> addImages (take (Suc n) urls) s = Some b
           \<and> image_count a \<le> 4 \<and> image_count b \<le> 4
           \<and> (secondaries b \<noteq> secondaries a \<longrightarrow> truthy (primary a) \<and> primary b = primary a)"
    using a b by (auto simp: image_inv_def)
next
  assume "tempImageInput s = ''''"
  then show "handleAddImage s = Some (s, [])" by (rule handleAddImage_empty)
next
  assume 4: "image_count s = 4"
  from assms(1) obtain subs where "secondaries s = Some subs"
    by (auto simp: image_inv_def)
  from handleAddImage_full [OF this] 4 show "\<exists>fx. handleAddImage s = Some (s, fx)"
    by simp
qed

text \<open>
  Claim C1 from the blank draft and five URLs: the first becomes the primary, the next
  three the secondaries, and the fifth is refused.
\<close>

theorem addImage_bounded_primary_first_witness:
  "image_inv blank_app
   \<and> '''' \<notin> set [''a'', ''b'', ''c'', ''d'', ''e'']
   \<and> (\<exists>s'. addImages [''a'', ''b'', ''c'', ''d'', ''e''] blank_app = Some s'
          \<and> image_count s' \<le> 4
          \<and> primary s' = JStr ''a''
          \<and> secondaries s' = Some [JStr ''b'', JStr ''c'', JStr ''d''])"
proof -
  have inv: "image_inv blank_app"
    by (simp add: image_inv_def image_count_def secondaries_def primary_def blank_app_def
        initialProduct_def field_def)
  have ne: "'''' \<notin> set [''a'', ''b'', ''c'', ''d'', ''e'']"
    by simp
  have run: "\<exists>s'. addImages [''a'', ''b'', ''c'', ''d'', ''e''] blank_app = Some s'
          \<and> primary s' = JStr ''a''
          \<and> secondaries s' = Some [JStr ''b'', JStr ''c'', JStr ''d'']"
    by (simp add: addImage_def handleAddImage_def blank_app_def initialProduct_def Let_def
        field_def primary_def secondaries_def)
  from addImage_bounded_primary_first [OF inv ne] obtain s' where
    "addImages [''a'', ''b'', ''c'', ''d'', ''e''] blank_app = Some s'" "image_count s' \<le> 4"
    by blast
  then show ?thesis
    using inv ne run by simp
qed


end
